theory Spec2Isabelle
  imports Main "HOL-Library.Word"
begin

unbundle bit_operations_syntax

section \<open>A levelled logging facade over Go's standard logger\<close>

text \<open>
  The package \<open>log\<close> (file \<open>log.go\<close>) wraps a \<open>*stdlog.Logger\<close> and adds three
  severities. A \<open>Logger\<close> holds three function-valued fields; each is either the package
  variable \<open>NoOpFn\<close> or the method value \<open>l.logWrite\<close>. The embedding below keeps the Go
  names (methods are prefixed by their receiver type: \<open>Logger_Level\<close> is \<open>Logger.Level\<close>).

  \<^item> Pointers \<open>*Logger\<close> are addresses into an explicit heap; an address outside the heap
    stands for \<open>nil\<close>, and dereferencing it is the run-time panic of Go.
  \<^item> Function values are defunctionalised: a \<open>LoggerFunc\<close> is the closure \<open>NoOpFn\<close> or the
    method value \<open>l.logWrite\<close> (which captures the pointer \<open>l\<close>); a \<open>PrintFunc\<close> is the empty
    closure returned by \<open>NoOpFn\<close> or the closure returned by \<open>logWrite\<close> (which captures
    \<open>l\<close> and the computed prefix). \<open>apply_LoggerFunc\<close> and \<open>call_PrintFunc\<close> run them.
  \<^item> Output is a list of the byte strings handed to each \<open>Write\<close> call of a stream.
\<close>

subsection \<open>Constants of \<open>log.go\<close>\<close>

definition LevelError :: string where "LevelError = ''Error''"
definition LevelInfo :: string where "LevelInfo = ''Info''"
definition LevelDebug :: string where "LevelDebug = ''Debug''"

definition ErrStr :: string where "ErrStr = ''ER''"
definition InfoStr :: string where "InfoStr = ''INF''"
definition DebugStr :: string where "DebugStr = ''DBG''"

text \<open>The flag bits, \<open>1 << iota\<close> from \<open>Ldate\<close> on.\<close>

definition Ldate :: int where "Ldate = 1"
definition Ltime :: int where "Ltime = 2"
definition Lmicroseconds :: int where "Lmicroseconds = 4"
definition Llongfile :: int where "Llongfile = 8"
definition Lshortfile :: int where "Lshortfile = 16"
definition LUTC :: int where "LUTC = 32"
definition LstdFlags :: int where "LstdFlags = Ldate OR Ltime"

subsection \<open>Data\<close>

record Cfg =
  Level :: string
  Prefix :: string
  Flags :: int

type_synonym addr = nat

text \<open>The destination of a standard logger: only the two process streams occur.\<close>

datatype stream = Stdout | Stderr

text \<open>The configuration of a \<open>stdlog.Logger\<close>: destination, prefix and flags.\<close>

record stdLogger =
  out :: stream
  prefix :: string
  flag :: int

datatype LoggerFunc = NoOpFn | LogWrite addr

datatype PrintFunc = Discard | Printer addr string

record Logger =
  log :: stdLogger
  errorFn :: LoggerFunc
  debugFn :: LoggerFunc
  infoFn :: LoggerFunc

text \<open>
  The process: the heap of \<open>Logger\<close> objects (a pointer is an index into it), the
  standard library's package-level logger \<open>std\<close>, what has been written to the two
  streams, and the exit status once \<open>os.Exit\<close> has been called.
\<close>

record state =
  heap :: "Logger list"
  std :: stdLogger
  stdout :: "string list"
  stderr :: "string list"
  exited :: "int option"

datatype panic = NilDereference

definition deref :: "state \<Rightarrow> addr \<Rightarrow> Logger option" where
  "deref st l = (if l < length (heap st) then Some (heap st ! l) else None)"

text \<open>A field assignment \<open>l.f = v\<close> through the pointer \<open>l\<close>.\<close>

definition assign :: "addr \<Rightarrow> (Logger \<Rightarrow> Logger) \<Rightarrow> state \<Rightarrow> panic + state" where
  "assign l upd st =
     (if l < length (heap st)
      then Inr (st\<lparr>heap := (heap st)[l := upd (heap st ! l)]\<rparr>)
      else Inl NilDereference)"

definition and_then :: "panic + 'a \<Rightarrow> ('a \<Rightarrow> panic + 'b) \<Rightarrow> panic + 'b" where
  "and_then r k = (case r of Inl p \<Rightarrow> Inl p | Inr x \<Rightarrow> k x)"

subsection \<open>\<open>Logger.Level\<close>\<close>

text \<open>
  The three case bodies of the \<open>switch\<close>, each falling through to the next:
  \<^verbatim>\<open>
  case LevelDebug: l.debugFn = l.logWrite; fallthrough
  case LevelInfo:  l.infoFn = l.logWrite;  fallthrough
  case LevelError: l.errorFn = l.logWrite
  \<close>
\<close>

definition case_LevelError :: "addr \<Rightarrow> state \<Rightarrow> panic + state" where
  "case_LevelError l st = assign l (\<lambda>g. g\<lparr>errorFn := LogWrite l\<rparr>) st"

definition case_LevelInfo :: "addr \<Rightarrow> state \<Rightarrow> panic + state" where
  "case_LevelInfo l st =
     and_then (assign l (\<lambda>g. g\<lparr>infoFn := LogWrite l\<rparr>) st) (case_LevelError l)"

definition case_LevelDebug :: "addr \<Rightarrow> state \<Rightarrow> panic + state" where
  "case_LevelDebug l st =
     and_then (assign l (\<lambda>g. g\<lparr>debugFn := LogWrite l\<rparr>) st) (case_LevelInfo l)"

definition Logger_Level :: "addr \<Rightarrow> string \<Rightarrow> state \<Rightarrow> panic + (addr \<times> state)" where
  "Logger_Level l level st =
     and_then
       (if level = LevelDebug then case_LevelDebug l st
        else if level = LevelInfo then case_LevelInfo l st
        else if level = LevelError then case_LevelError l st
        else Inr st)
       (\<lambda>st'. Inr (l, st'))"

subsection \<open>\<open>New\<close>\<close>

text \<open>\<open>stdlog.New(out, prefix, flag)\<close> of the standard library only stores its arguments.\<close>

definition stdlog_New :: "stream \<Rightarrow> string \<Rightarrow> int \<Rightarrow> stdLogger" where
  "stdlog_New w p f = \<lparr>out = w, prefix = p, flag = f\<rparr>"

definition New :: "Cfg \<Rightarrow> state \<Rightarrow> panic + (addr \<times> state)" where
  "New c st =
     (let l = stdlog_New Stdout (Prefix c @ '' '') (Flags c);
          logger = length (heap st);
          st1 = st\<lparr>heap := heap st @
                  [\<lparr>log = l, errorFn = NoOpFn, debugFn = NoOpFn, infoFn = NoOpFn\<rparr>]\<rparr>
      in and_then (Logger_Level logger (Level c) st1) (\<lambda>(_, st2). Inr (logger, st2)))"

subsection \<open>The entry points and \<open>logWrite\<close>\<close>

text \<open>\<open>strings.Join(elems, sep)\<close>.\<close>

fun Join :: "string list \<Rightarrow> string \<Rightarrow> string" where
  "Join [] sep = []"
| "Join [x] sep = x"
| "Join (x # y # ys) sep = x @ sep @ Join (y # ys) sep"

definition Logger_logWrite :: "addr \<Rightarrow> string \<Rightarrow> string list \<Rightarrow> PrintFunc" where
  "Logger_logWrite l level ctx = Printer l (level @ ''['' @ Join ctx ''|'' @ '']'')"

fun apply_LoggerFunc :: "LoggerFunc \<Rightarrow> string \<Rightarrow> string list \<Rightarrow> PrintFunc" where
  "apply_LoggerFunc NoOpFn _ _ = Discard"
| "apply_LoggerFunc (LogWrite l) level ctx = Logger_logWrite l level ctx"

definition Logger_Error :: "addr \<Rightarrow> string list \<Rightarrow> state \<Rightarrow> panic + PrintFunc" where
  "Logger_Error l ctx st =
     (case deref st l of None \<Rightarrow> Inl NilDereference
      | Some g \<Rightarrow> Inr (apply_LoggerFunc (errorFn g) ErrStr ctx))"

definition Logger_Info :: "addr \<Rightarrow> string list \<Rightarrow> state \<Rightarrow> panic + PrintFunc" where
  "Logger_Info l ctx st =
     (case deref st l of None \<Rightarrow> Inl NilDereference
      | Some g \<Rightarrow> Inr (apply_LoggerFunc (infoFn g) InfoStr ctx))"

definition Logger_Debug :: "addr \<Rightarrow> string list \<Rightarrow> state \<Rightarrow> panic + PrintFunc" where
  "Logger_Debug l ctx st =
     (case deref st l of None \<Rightarrow> Inl NilDereference
      | Some g \<Rightarrow> Inr (apply_LoggerFunc (debugFn g) DebugStr ctx))"

subsection \<open>The standard library: \<open>fmt\<close>\<close>

text \<open>
  \<open>log.go\<close> calls \<open>Printf\<close> and \<open>Fatal\<close> of Go's package \<open>log\<close>, which format with
  \<open>fmt.Sprintf\<close> and \<open>fmt.Sprint\<close>. These are modelled after the Go sources
  (\<open>fmt/print.go\<close>, \<open>log/log.go\<close>).

  \<open>Sprintf\<close> copies the format up to a \<open>%\<close> and reads a directive there: flags, an
  argument index, a width, a precision, an argument index, the verb. How a directive is
  delimited is modelled in full below, for every format. What a directive prints for
  the operands is the library's own business and is a parameter of the model (a
  \<open>formatter\<close>), so that the properties hold for every operand type, verb, flag, width
  and precision. The renderings of \<open>%%\<close>, \<open>%s\<close>, \<open>%v\<close> and \<open>%d\<close> on strings and ints are
  written out (\<open>fmt_plain\<close>) for the examples, as is \<open>fmt.Sprint\<close> on such operands.
\<close>

datatype arg = StringV string | IntV int

definition digit :: "nat \<Rightarrow> char" where
  "digit n = ''0123456789'' ! n"

fun decimal :: "nat \<Rightarrow> string" where
  "decimal n = (if n < 10 then [digit n] else decimal (n div 10) @ [digit (n mod 10)])"

declare decimal.simps [simp del]

definition fmtInteger :: "int \<Rightarrow> string" where
  "fmtInteger i = (if i < 0 then ''-'' @ decimal (nat (- i)) else decimal (nat i))"

definition typeName :: "arg \<Rightarrow> string" where
  "typeName x = (case x of StringV _ \<Rightarrow> ''string'' | IntV _ \<Rightarrow> ''int'')"

definition isString :: "arg \<Rightarrow> bool" where
  "isString x = (case x of StringV _ \<Rightarrow> True | IntV _ \<Rightarrow> False)"

text \<open>The operand under the verb \<open>%v\<close>.\<close>

definition fmt_v :: "arg \<Rightarrow> string" where
  "fmt_v x = (case x of StringV s \<Rightarrow> s | IntV i \<Rightarrow> fmtInteger i)"

text \<open>\<open>badVerb\<close>: \<open>%!verb(type=value)\<close>; \<open>missingArg\<close>: \<open>%!verb(MISSING)\<close>.\<close>

definition badVerb :: "char \<Rightarrow> arg \<Rightarrow> string" where
  "badVerb verb x = ''%!'' @ [verb] @ ''('' @ typeName x @ ''='' @ fmt_v x @ '')''"

definition missingArg :: "char \<Rightarrow> string" where
  "missingArg verb = ''%!'' @ [verb] @ ''(MISSING)''"

text \<open>\<open>printArg\<close> for the verbs \<open>s\<close>, \<open>v\<close> and \<open>d\<close>.\<close>

definition printArg :: "arg \<Rightarrow> char \<Rightarrow> string" where
  "printArg x verb =
     (case x of
        StringV s \<Rightarrow> if verb = CHR ''v'' \<or> verb = CHR ''s'' then s else badVerb verb x
      | IntV i \<Rightarrow> if verb = CHR ''v'' \<or> verb = CHR ''d'' then fmtInteger i else badVerb verb x)"

text \<open>Operands left over are reported: \<open>%!(EXTRA type=value, ...)\<close>.\<close>

definition extra :: "arg list \<Rightarrow> string" where
  "extra rest =
     (if rest = [] then []
      else ''%!(EXTRA '' @ Join (map (\<lambda>x. typeName x @ ''='' @ fmt_v x) rest) '', '' @ '')'')"

text \<open>
  The library's rendering, for operands of any type \<open>'v\<close>. \<open>render\<close> prints one
  directive (its text after the \<open>%\<close>, through the verb) given all the operands, the
  index \<open>argNum\<close> of the next operand and whether an explicit index has occurred
  (\<open>reordered\<close>), and returns the new \<open>argNum\<close> and \<open>reordered\<close>. \<open>render_cut\<close> does so
  for a directive that the end of the format cuts short, given the format from that
  directive on. \<open>extra_report\<close> is the report of the operands left over. A result \<open>None\<close>
  stands for a directive that a given formatter does not describe; Go's own is total.
\<close>

record 'v formatter =
  render :: "string \<Rightarrow> 'v list \<Rightarrow> nat \<Rightarrow> bool \<Rightarrow> (string \<times> nat \<times> bool) option"
  render_cut :: "string \<Rightarrow> 'v list \<Rightarrow> nat \<Rightarrow> bool \<Rightarrow> (string \<times> nat \<times> bool) option"
  extra_report :: "'v list \<Rightarrow> string option"

text \<open>The flag characters of the loop \<open>simpleFormat\<close>, and decimal digits.\<close>

definition is_flag :: "char \<Rightarrow> bool" where
  "is_flag c = (c \<in> set ''#0+- '')"

definition is_digit :: "char \<Rightarrow> bool" where
  "is_digit c = (c \<in> set ''0123456789'')"

definition digit_val :: "char \<Rightarrow> nat" where
  "digit_val c = of_char c - 48"

definition tooLarge :: "nat \<Rightarrow> bool" where
  "tooLarge x = (1000000 < x)"

text \<open>
  \<open>parsenum\<close>: the digits at the start of the text; whether there was one, and the text
  after them. When the number read so far is too large, Go gives up and skips to the end
  of the format: \<open>None\<close>.
\<close>

fun parsenum :: "nat \<Rightarrow> bool \<Rightarrow> string \<Rightarrow> (bool \<times> string) option" where
  "parsenum num isnum [] = Some (isnum, [])"
| "parsenum num isnum (c # cs) =
     (if is_digit c
      then (if tooLarge num then None else parsenum (num * 10 + digit_val c) True cs)
      else Some (isnum, c # cs))"

text \<open>
  \<open>argNumber\<close> with \<open>parseArgNumber\<close>: an argument index \<open>[n]\<close>. The result is the text
  after it and whether an index was found. Without a closing bracket only the opening one
  is skipped; up to a closing bracket everything is skipped, and the index counts as
  found when the bracket holds a number. Go asks for at least three bytes \<open>[n]\<close> before
  it looks for the closing bracket: an opening bracket within the last two bytes of the
  format is cut short by the end of the format (\<open>None\<close>).
\<close>

definition argNumber :: "string \<Rightarrow> (string \<times> bool) option" where
  "argNumber s =
     (case s of
        [] \<Rightarrow> Some (s, False)
      | c # cs \<Rightarrow>
          if c \<noteq> CHR ''['' then Some (s, False)
          else if length s < 3 then None
          else if CHR '']'' \<notin> set cs then Some (cs, False)
          else Some (tl (dropWhile (\<lambda>x. x \<noteq> CHR '']'') cs),
                     parsenum 0 False (takeWhile (\<lambda>x. x \<noteq> CHR '']'') cs) = Some (True, [])))"

text \<open>A width or precision: \<open>*\<close> (which resets \<open>afterIndex\<close>) or digits.\<close>

definition number_or_star :: "string \<Rightarrow> bool \<Rightarrow> (string \<times> bool) option" where
  "number_or_star s afterIndex =
     (if s \<noteq> [] \<and> hd s = CHR ''*'' then Some (tl s, False)
      else map_option (\<lambda>(_, rest). (rest, afterIndex)) (parsenum 0 False s))"

text \<open>The precision: a dot, an argument index, then \<open>*\<close> or digits.\<close>

definition precision :: "string \<Rightarrow> bool \<Rightarrow> (string \<times> bool) option" where
  "precision s afterIndex =
     (if s \<noteq> [] \<and> hd s = CHR ''.''
      then (case argNumber (tl s) of
              None \<Rightarrow> None
            | Some (s', afterIndex') \<Rightarrow> number_or_star s' afterIndex')
      else Some (s, afterIndex))"

text \<open>The argument index before the verb, read unless an index came just before.\<close>

definition last_index :: "string \<Rightarrow> bool \<Rightarrow> string option" where
  "last_index s afterIndex = (if afterIndex then Some s else map_option fst (argNumber s))"

text \<open>
  The verb is one rune, decoded by \<open>utf8.DecodeRuneInString\<close>. The leading byte tells
  how many bytes the rune asks for: one for ASCII and for a byte that cannot lead, else
  two to four.
\<close>

definition lead_size :: "nat \<Rightarrow> nat" where
  "lead_size b0 =
     (if b0 < 0xC2 \<or> 0xF4 < b0 then 1 else if b0 < 0xE0 then 2 else if b0 < 0xF0 then 3 else 4)"

text \<open>
  The size of the rune at the start of a text that holds all the bytes the leading byte
  asks for: that many bytes when the bytes after the first are continuation bytes in
  the accepted ranges, else one byte (an invalid sequence).
\<close>

definition decoded_size :: "string \<Rightarrow> nat" where
  "decoded_size s =
     (let b0 = of_char (s ! 0) :: nat;
          sz = lead_size b0;
          lo = (if b0 = 0xE0 then 0xA0 else if b0 = 0xF0 then 0x90 else 0x80) :: nat;
          hi = (if b0 = 0xED then 0x9F else if b0 = 0xF4 then 0x8F else 0xBF) :: nat
      in if sz = 1 then 1
         else if of_char (s ! 1) < lo \<or> hi < of_char (s ! 1) then 1
         else if sz = 2 then 2
         else if (of_char (s ! 2) :: nat) < 0x80 \<or> (0xBF :: nat) < of_char (s ! 2) then 1
         else if sz = 3 then 3
         else if (of_char (s ! 3) :: nat) < 0x80 \<or> (0xBF :: nat) < of_char (s ! 3) then 1
         else 4)"

text \<open>
  The size in bytes of the rune that starts a non-empty text. A leading byte that asks
  for more bytes than the format has left is cut short by the end of the format
  (\<open>None\<close>).
\<close>

definition rune_size :: "string \<Rightarrow> nat option" where
  "rune_size s =
     (let sz = lead_size (of_char (s ! 0))
      in if length s < sz then None else Some (decoded_size (take sz s)))"

text \<open>The verb: the text after it; \<open>None\<close> when the format has ended (\<open>%!(NOVERB)\<close>).\<close>

definition verb :: "string \<Rightarrow> string option" where
  "verb s = (if s = [] then None else map_option (\<lambda>k. drop k s) (rune_size s))"

text \<open>
  The number of bytes of the directive that starts the text (the text after a \<open>%\<close>):
  flags, argument index, width, precision, argument index, verb. \<open>None\<close>: the end of the
  format cuts the directive short.
\<close>

definition directive :: "string \<Rightarrow> nat option" where
  "directive s =
     (case argNumber (dropWhile is_flag s) of
        None \<Rightarrow> None
      | Some (s1, a1) \<Rightarrow>
     (case number_or_star s1 a1 of
        None \<Rightarrow> None
      | Some (s2, a2) \<Rightarrow>
     (case precision s2 a2 of
        None \<Rightarrow> None
      | Some (s3, a3) \<Rightarrow>
     (case last_index s3 a3 of
        None \<Rightarrow> None
      | Some s4 \<Rightarrow> map_option (\<lambda>rest. length s - length rest) (verb s4)))))"

definition emit ::
    "string \<Rightarrow> (string \<times> nat \<times> bool) option \<Rightarrow> (string \<times> nat \<times> bool) option" where
  "emit s r = map_option (\<lambda>(t, n, ro). (s @ t, n, ro)) r"

text \<open>
  The loop of \<open>doPrintf\<close>: text up to a \<open>%\<close> is copied, a directive is rendered, and a
  directive cut short ends the loop. The result is the text with the final \<open>argNum\<close> and
  \<open>reordered\<close>.
\<close>

function doPrintf ::
    "'v formatter \<Rightarrow> string \<Rightarrow> 'v list \<Rightarrow> nat \<Rightarrow> bool \<Rightarrow> (string \<times> nat \<times> bool) option" where
  "doPrintf lib [] a argNum reordered = Some ([], argNum, reordered)"
| "doPrintf lib (c # cs) a argNum reordered =
     (if c \<noteq> CHR ''%'' then emit [c] (doPrintf lib cs a argNum reordered)
      else case directive cs of
             None \<Rightarrow> render_cut lib cs a argNum reordered
           | Some k \<Rightarrow>
               (case render lib (take k cs) a argNum reordered of
                  None \<Rightarrow> None
                | Some (t, argNum', reordered') \<Rightarrow>
                    emit t (doPrintf lib (drop k cs) a argNum' reordered')))"
  by pat_completeness auto
termination
  by (relation "measure (\<lambda>(lib, format, a, argNum, reordered). length format)") auto

text \<open>
  \<open>Sprintf\<close>: after the loop, operands left over are reported unless an explicit index
  has occurred.
\<close>

definition Sprintf :: "'v formatter \<Rightarrow> string \<Rightarrow> 'v list \<Rightarrow> string option" where
  "Sprintf lib format a =
     (case doPrintf lib format a 0 False of
        None \<Rightarrow> None
      | Some (t, argNum, reordered) \<Rightarrow>
          if \<not> reordered \<and> argNum < length a
          then map_option (\<lambda>x. t @ x) (extra_report lib (drop argNum a))
          else Some t)"

text \<open>
  The renderings written out, on strings and ints: \<open>%%\<close> prints a percent sign and takes
  no operand; \<open>%s\<close>, \<open>%v\<close> and \<open>%d\<close> print the next operand (\<open>printArg\<close>) or, when none
  is left, \<open>%!verb(MISSING)\<close>; a \<open>%\<close> that ends the format prints \<open>%!(NOVERB)\<close>. Any
  other directive is not described here (\<open>None\<close>).
\<close>

definition fmt_plain :: "arg formatter" where
  "fmt_plain =
     \<lparr>render = (\<lambda>d a argNum reordered.
        if d = ''%'' then Some (''%'', argNum, reordered)
        else if d = ''s'' \<or> d = ''v'' \<or> d = ''d'' then
          (if argNum < length a
           then Some (printArg (a ! argNum) (hd d), Suc argNum, reordered)
           else Some (missingArg (hd d), argNum, reordered))
        else None),
      render_cut = (\<lambda>s a argNum reordered.
        if s = [] then Some (''%!(NOVERB)'', argNum, reordered) else None),
      extra_report = (\<lambda>rest. Some (extra rest))\<rparr>"

text \<open>
  \<open>fmt.Sprint\<close> (\<open>doPrint\<close>): every operand as under \<open>%v\<close>, with a space between two
  operands when neither is a string.
\<close>

fun doPrint :: "bool \<Rightarrow> bool \<Rightarrow> arg list \<Rightarrow> string" where
  "doPrint notFirst prevString [] = []"
| "doPrint notFirst prevString (x # xs) =
     (if notFirst \<and> \<not> isString x \<and> \<not> prevString then '' '' else []) @
     fmt_v x @ doPrint True (isString x) xs"

definition Sprint :: "arg list \<Rightarrow> string" where
  "Sprint a = doPrint False False a"

subsection \<open>The standard library: \<open>log\<close>\<close>

text \<open>
  What a call reads from its surroundings: the wall clock (\<open>time.Now()\<close>, broken down in
  the local zone and in UTC) and the source position \<open>runtime.Caller\<close> reports.
\<close>

record clock =
  year :: nat
  month :: nat
  day :: nat
  hour :: nat
  minute :: nat
  second :: nat
  microsecond :: nat

record env =
  now :: clock
  now_utc :: clock
  caller_file :: string
  caller_line :: nat

text \<open>
  \<open>Lmsgprefix\<close> is the flag after \<open>LUTC\<close> in the standard library (since Go 1.14);
  \<open>log.go\<close> does not copy it, but \<open>Cfg.Flags\<close> reaches \<open>stdlog.New\<close> unchanged.
\<close>

definition Lmsgprefix :: int where "Lmsgprefix = 64"

text \<open>\<open>itoa\<close>: decimal, zero-padded to the width (width 0: no padding).\<close>

definition itoa :: "nat \<Rightarrow> nat \<Rightarrow> string" where
  "itoa i wid = replicate (wid - length (decimal i)) (CHR ''0'') @ decimal i"

text \<open>The final path element: the text after the last \<open>/\<close> at an index above 0.\<close>

fun shortName_from :: "nat \<Rightarrow> string \<Rightarrow> string" where
  "shortName_from 0 f = f"
| "shortName_from (Suc i) f =
     (if f ! Suc i = CHR ''/'' then drop (Suc (Suc i)) f else shortName_from i f)"

definition shortName :: "string \<Rightarrow> string" where
  "shortName f = shortName_from (length f - 1) f"

text \<open>The date, time and source position that the flags select, in this order.\<close>

definition decorations :: "env \<Rightarrow> int \<Rightarrow> string" where
  "decorations e flg =
     (if flg AND (Ldate OR Ltime OR Lmicroseconds) \<noteq> 0 then
        (let t = (if flg AND LUTC \<noteq> 0 then now_utc e else now e) in
           (if flg AND Ldate \<noteq> 0
            then itoa (year t) 4 @ ''/'' @ itoa (month t) 2 @ ''/'' @ itoa (day t) 2 @ '' ''
            else []) @
           (if flg AND (Ltime OR Lmicroseconds) \<noteq> 0
            then itoa (hour t) 2 @ '':'' @ itoa (minute t) 2 @ '':'' @ itoa (second t) 2 @
                 (if flg AND Lmicroseconds \<noteq> 0 then ''.'' @ itoa (microsecond t) 6 else []) @
                 '' ''
            else []))
      else []) @
     (if flg AND (Lshortfile OR Llongfile) \<noteq> 0 then
        (if flg AND Lshortfile \<noteq> 0 then shortName (caller_file e) else caller_file e) @
        '':'' @ itoa (caller_line e) 0 @ '': ''
      else [])"

text \<open>
  \<open>formatHeader\<close>: the prefix (unless \<open>Lmsgprefix\<close> is set), the decorations, the prefix
  (if \<open>Lmsgprefix\<close> is set).
\<close>

definition formatHeader :: "env \<Rightarrow> string \<Rightarrow> int \<Rightarrow> string" where
  "formatHeader e pfx flg =
     (if flg AND Lmsgprefix = 0 then pfx else []) @
     decorations e flg @
     (if flg AND Lmsgprefix \<noteq> 0 then pfx else [])"

definition newline :: char where
  "newline = CHR 0x0A"

definition stream_Write :: "stream \<Rightarrow> string \<Rightarrow> state \<Rightarrow> state" where
  "stream_Write w b st =
     (case w of
        Stdout \<Rightarrow> st\<lparr>stdout := stdout st @ [b]\<rparr>
      | Stderr \<Rightarrow> st\<lparr>stderr := stderr st @ [b]\<rparr>)"

text \<open>
  \<open>Output\<close>: header, message, and a newline unless the message ends in one; a single
  \<open>Write\<close> to the destination, whose error is dropped.
\<close>

definition stdlog_Output :: "stdLogger \<Rightarrow> string \<Rightarrow> env \<Rightarrow> state \<Rightarrow> state" where
  "stdlog_Output L s e st =
     stream_Write (out L)
       (formatHeader e (prefix L) (flag L) @ s @
        (if s = [] \<or> last s \<noteq> newline then [newline] else []))
       st"

definition stdlog_Printf ::
    "'v formatter \<Rightarrow> stdLogger \<Rightarrow> string \<Rightarrow> 'v list \<Rightarrow> env \<Rightarrow> state \<Rightarrow> state option" where
  "stdlog_Printf lib L format v e st =
     map_option (\<lambda>s. stdlog_Output L s e st) (Sprintf lib format v)"

text \<open>\<open>stdlog.Fatal\<close>: \<open>std.Output(2, fmt.Sprint(v...))\<close>, then \<open>os.Exit(1)\<close>.\<close>

definition stdlog_Fatal :: "arg list \<Rightarrow> env \<Rightarrow> state \<Rightarrow> state" where
  "stdlog_Fatal v e st = (stdlog_Output (std st) (Sprint v) e st)\<lparr>exited := Some 1\<rparr>"

text \<open>The standard logger as the library creates it: \<open>New(os.Stderr, "", LstdFlags)\<close>.\<close>

definition std_initial :: stdLogger where
  "std_initial = stdlog_New Stderr [] LstdFlags"

definition initial :: state where
  "initial = \<lparr>heap = [], std = std_initial, stdout = [], stderr = [], exited = None\<rparr>"

subsection \<open>Running the closures, and \<open>Fatal\<close>\<close>

text \<open>
  The closure of \<open>NoOpFn\<close> has an empty body. The closure of \<open>logWrite\<close> runs
  \<open>l.log.Printf(prefix+"<"+format+">", args...)\<close>. The outer \<open>option\<close> is \<open>None\<close> only
  when the formatter does not describe a directive of the format.
\<close>

fun call_PrintFunc ::
    "'v formatter \<Rightarrow> PrintFunc \<Rightarrow> string \<Rightarrow> 'v list \<Rightarrow> env \<Rightarrow> state \<Rightarrow>
     (panic + state) option" where
  "call_PrintFunc lib Discard format args e st = Some (Inr st)"
| "call_PrintFunc lib (Printer l pfx) format args e st =
     (case deref st l of
        None \<Rightarrow> Some (Inl NilDereference)
      | Some g \<Rightarrow>
          map_option Inr (stdlog_Printf lib (log g) (pfx @ ''<'' @ format @ ''>'') args e st))"

definition Fatal :: "arg list \<Rightarrow> env \<Rightarrow> state \<Rightarrow> state" where
  "Fatal args e st = stdlog_Fatal args e st"

text \<open>The documented use of an entry point, \<open>l.Error(ctx...)(format, args...)\<close>.\<close>

definition log_call ::
    "'v formatter \<Rightarrow> (addr \<Rightarrow> string list \<Rightarrow> state \<Rightarrow> panic + PrintFunc) \<Rightarrow>
     addr \<Rightarrow> string list \<Rightarrow> string \<Rightarrow> 'v list \<Rightarrow> env \<Rightarrow> state \<Rightarrow> (panic + state) option" where
  "log_call lib entry l ctx format args e st =
     (case entry l ctx st of
        Inl p \<Rightarrow> Some (Inl p)
      | Inr pf \<Rightarrow> call_PrintFunc lib pf format args e st)"

subsection \<open>The superseded package \<open>bkp/log1\<close>\<close>

text \<open>
  \<open>log1.go\<close> keeps the level as an \<open>int8\<close> and compares it in every entry point. Its
  names carry the suffix \<open>1\<close> here. A \<open>Logger1\<close> is passed by value: \<open>Level\<close> returns the
  updated logger. The closure of its \<open>logWrite\<close> captures the logger's writer and the
  prefix; only which closure an entry point returns is modelled, not its call.
\<close>

definition LevelError1 :: "8 word" where "LevelError1 = 0"
definition LevelInfo1 :: "8 word" where "LevelInfo1 = 1"
definition LevelDebug1 :: "8 word" where "LevelDebug1 = 2"

definition ErrStr1 :: string where "ErrStr1 = ''[Error]''"
definition InfoStr1 :: string where "InfoStr1 = ''[Info ]''"
definition DebugStr1 :: string where "DebugStr1 = ''[Debug]''"

record Logger1 =
  log1 :: stdLogger
  level :: "8 word"

datatype PrintFunc1 = Discard1 | Printer1 stdLogger string

definition NoOpLogger :: "string \<Rightarrow> string list \<Rightarrow> PrintFunc1" where
  "NoOpLogger _ _ = Discard1"

definition New1 :: "stream \<Rightarrow> string \<Rightarrow> int \<Rightarrow> Logger1" where
  "New1 w pfx flg = \<lparr>log1 = stdlog_New w (pfx @ '' '') flg, level = 0\<rparr>"

definition Logger1_Level :: "Logger1 \<Rightarrow> 8 word \<Rightarrow> Logger1" where
  "Logger1_Level l lv = l\<lparr>level := lv\<rparr>"

definition Logger1_logWrite :: "Logger1 \<Rightarrow> string \<Rightarrow> string list \<Rightarrow> PrintFunc1" where
  "Logger1_logWrite l lv ctx = Printer1 (log1 l) (lv @ ''['' @ Join ctx ''|'' @ '']'')"

definition Logger1_Error :: "Logger1 \<Rightarrow> string list \<Rightarrow> PrintFunc1" where
  "Logger1_Error l ctx =
     (if sint LevelError1 \<le> sint (level l) then Logger1_logWrite l ErrStr1 ctx
      else NoOpLogger [] [[]])"

definition Logger1_Info :: "Logger1 \<Rightarrow> string list \<Rightarrow> PrintFunc1" where
  "Logger1_Info l ctx =
     (if sint LevelError1 \<le> sint (level l) then Logger1_logWrite l InfoStr1 ctx
      else NoOpLogger [] [[]])"

definition Logger1_Debug :: "Logger1 \<Rightarrow> string list \<Rightarrow> PrintFunc1" where
  "Logger1_Debug l ctx =
     (if sint LevelError1 \<le> sint (level l) then Logger1_logWrite l DebugStr1 ctx
      else NoOpLogger [] [[]])"

subsection \<open>Notions used by the properties\<close>

text \<open>A slot is active when it holds \<open>logWrite\<close>; a formatter writes when it is not the
  empty closure.\<close>

definition active :: "LoggerFunc \<Rightarrow> bool" where
  "active f = (case f of NoOpFn \<Rightarrow> False | LogWrite _ \<Rightarrow> True)"

definition writes :: "PrintFunc \<Rightarrow> bool" where
  "writes pf = (case pf of Discard \<Rightarrow> False | Printer _ _ \<Rightarrow> True)"

definition writes1 :: "PrintFunc1 \<Rightarrow> bool" where
  "writes1 pf = (case pf of Discard1 \<Rightarrow> False | Printer1 _ _ \<Rightarrow> True)"

text \<open>The active slots form a prefix of Error, Info, Debug.\<close>

definition ladder :: "Logger \<Rightarrow> bool" where
  "ladder g = ((active (debugFn g) \<longrightarrow> active (infoFn g)) \<and>
               (active (infoFn g) \<longrightarrow> active (errorFn g)))"

text \<open>
  The states a process reaches from its start through the package: \<open>New\<close>, \<open>Level\<close> on
  any pointer, and calls of formatters (with any rendering of the directives).
\<close>

inductive reachable :: "state \<Rightarrow> bool" where
  start: "reachable initial"
| new: "reachable st \<Longrightarrow> New c st = Inr (l, st') \<Longrightarrow> reachable st'"
| set_level: "reachable st \<Longrightarrow> Logger_Level l lv st = Inr (l', st') \<Longrightarrow> reachable st'"
| print: "reachable st \<Longrightarrow>
          call_PrintFunc (lib :: arg formatter) pf format args e st = Some (Inr st') \<Longrightarrow>
          reachable st'"

text \<open>
  A format that ends inside a directive: the end of the format cuts its last directive
  short (before the verb, within two bytes after the opening bracket of an argument
  index, within the bytes of a non-ASCII verb, or after a width or precision too large
  to be read).
\<close>

function unfinished :: "string \<Rightarrow> bool" where
  "unfinished [] = False"
| "unfinished (c # cs) =
     (if c \<noteq> CHR ''%'' then unfinished cs
      else case directive cs of None \<Rightarrow> True | Some k \<Rightarrow> unfinished (drop k cs))"
  by pat_completeness auto
termination
  by (relation "measure length") auto

text \<open>
  The line as the specification words it: the writer's decorations, the prefix and a
  space, the tag, the bracketed contexts, the formatted message in angle brackets.
\<close>

definition spec_line :: "env \<Rightarrow> string \<Rightarrow> int \<Rightarrow> string \<Rightarrow> string list \<Rightarrow> string \<Rightarrow> string" where
  "spec_line e P flg T ctx body =
     decorations e flg @ P @ '' '' @ T @ ''['' @ Join ctx ''|'' @ '']'' @ ''<'' @ body @ ''>''"

text \<open>
  The line as the code emits it: the prefix and a space come first and the decorations
  follow, unless the flag \<open>Lmsgprefix\<close> is set, which swaps the two.
\<close>

definition emitted_line :: "env \<Rightarrow> string \<Rightarrow> int \<Rightarrow> string \<Rightarrow> string list \<Rightarrow> string \<Rightarrow> string" where
  "emitted_line e P flg T ctx body =
     (if flg AND Lmsgprefix = 0 then P @ '' '' @ decorations e flg
      else decorations e flg @ P @ '' '') @
     T @ ''['' @ Join ctx ''|'' @ '']'' @ ''<'' @ body @ ''>''"

subsection \<open>Concrete inputs\<close>

text \<open>
  The surroundings of the examples in the standard library's documentation
  (2009/01/23 01:23:23.123123 local time, \<open>/a/b/c/d.go:23\<close>), a configuration with prefix
  \<open>svc\<close> and no flags, and the process right after \<open>New\<close> of that configuration.
\<close>

definition env0 :: env where
  "env0 = \<lparr>now = \<lparr>year = 2009, month = 1, day = 23, hour = 1, minute = 23, second = 23,
                   microsecond = 123123\<rparr>,
            now_utc = \<lparr>year = 2009, month = 1, day = 22, hour = 23, minute = 23, second = 23,
                       microsecond = 123123\<rparr>,
            caller_file = ''/a/b/c/d.go'', caller_line = 23\<rparr>"

definition svc :: "string \<Rightarrow> int \<Rightarrow> Cfg" where
  "svc lv flg = \<lparr>Level = lv, Prefix = ''svc'', Flags = flg\<rparr>"

definition armed :: "string \<Rightarrow> int \<Rightarrow> state" where
  "armed lv flg = (case New (svc lv flg) initial of Inr (_, st) \<Rightarrow> st | Inl _ \<Rightarrow> initial)"

section \<open>Properties\<close>

subsection \<open>What \<open>Level\<close> and \<open>New\<close> compute\<close>

lemma level_names_distinct:
  "LevelDebug \<noteq> LevelInfo" "LevelDebug \<noteq> LevelError" "LevelInfo \<noteq> LevelError"
  "LevelInfo \<noteq> LevelDebug" "LevelError \<noteq> LevelDebug" "LevelError \<noteq> LevelInfo"
  by (simp_all add: LevelDebug_def LevelInfo_def LevelError_def)

lemma Level_Error_alloc:
  assumes "l < length (heap st)"
  shows "Logger_Level l LevelError st =
           Inr (l, st\<lparr>heap := (heap st)[l := (heap st ! l)\<lparr>errorFn := LogWrite l\<rparr>]\<rparr>)"
  using assms
  by (simp add: Logger_Level_def case_LevelError_def assign_def and_then_def level_names_distinct)

lemma Level_Info_alloc:
  assumes "l < length (heap st)"
  shows "Logger_Level l LevelInfo st =
           Inr (l, st\<lparr>heap := (heap st)[l := (heap st ! l)\<lparr>infoFn := LogWrite l, errorFn := LogWrite l\<rparr>]\<rparr>)"
  using assms
  by (simp add: Logger_Level_def case_LevelInfo_def case_LevelError_def assign_def and_then_def
      level_names_distinct)

lemma Level_Debug_alloc:
  assumes "l < length (heap st)"
  shows "Logger_Level l LevelDebug st =
           Inr (l, st\<lparr>heap := (heap st)[l := (heap st ! l)\<lparr>debugFn := LogWrite l,
                    infoFn := LogWrite l, errorFn := LogWrite l\<rparr>]\<rparr>)"
  using assms
  by (simp add: Logger_Level_def case_LevelDebug_def case_LevelInfo_def case_LevelError_def
      assign_def and_then_def level_names_distinct)

lemma Level_other:
  assumes "lv \<noteq> LevelDebug" "lv \<noteq> LevelInfo" "lv \<noteq> LevelError"
  shows "Logger_Level l lv st = Inr (l, st)"
  using assms by (simp add: Logger_Level_def and_then_def)

lemma Level_nil:
  assumes "\<not> l < length (heap st)" "lv = LevelDebug \<or> lv = LevelInfo \<or> lv = LevelError"
  shows "Logger_Level l lv st = Inl NilDereference"
  using assms
  by (auto simp add: Logger_Level_def case_LevelDebug_def case_LevelInfo_def case_LevelError_def
      assign_def and_then_def level_names_distinct)


lemma New_total:
  "New c st = (case Logger_Level (length (heap st)) (Level c)
                 (st\<lparr>heap := heap st @ [\<lparr>log = stdlog_New Stdout (Prefix c @ '' '') (Flags c),
                      errorFn = NoOpFn, debugFn = NoOpFn, infoFn = NoOpFn\<rparr>]\<rparr>) of
                 Inl p \<Rightarrow> Inl p | Inr (_, st2) \<Rightarrow> Inr (length (heap st), st2))"
  by (simp add: New_def Let_def and_then_def split: sum.splits)


lemma New_unknown:
  assumes "Level c \<noteq> LevelDebug" "Level c \<noteq> LevelInfo" "Level c \<noteq> LevelError"
  shows "New c st = Inr (length (heap st),
           st\<lparr>heap := heap st @ [\<lparr>log = stdlog_New Stdout (Prefix c @ '' '') (Flags c),
                 errorFn = NoOpFn, debugFn = NoOpFn, infoFn = NoOpFn\<rparr>]\<rparr>)"
  using assms by (simp add: New_total Level_other)

lemma New_Error:
  assumes "Level c = LevelError"
  shows "New c st = Inr (length (heap st),
           st\<lparr>heap := heap st @ [\<lparr>log = stdlog_New Stdout (Prefix c @ '' '') (Flags c),
                 errorFn = LogWrite (length (heap st)), debugFn = NoOpFn, infoFn = NoOpFn\<rparr>]\<rparr>)"
  using assms by (simp add: New_total Level_Error_alloc)

lemma New_Info:
  assumes "Level c = LevelInfo"
  shows "New c st = Inr (length (heap st),
           st\<lparr>heap := heap st @ [\<lparr>log = stdlog_New Stdout (Prefix c @ '' '') (Flags c),
                 errorFn = LogWrite (length (heap st)), debugFn = NoOpFn,
                 infoFn = LogWrite (length (heap st))\<rparr>]\<rparr>)"
  using assms by (simp add: New_total Level_Info_alloc)

lemma New_Debug:
  assumes "Level c = LevelDebug"
  shows "New c st = Inr (length (heap st),
           st\<lparr>heap := heap st @ [\<lparr>log = stdlog_New Stdout (Prefix c @ '' '') (Flags c),
                 errorFn = LogWrite (length (heap st)), debugFn = LogWrite (length (heap st)),
                 infoFn = LogWrite (length (heap st))\<rparr>]\<rparr>)"
  using assms by (simp add: New_total Level_Debug_alloc)


lemma armed_Info:
  "armed LevelInfo flg = initial\<lparr>heap := [\<lparr>log = stdlog_New Stdout ''svc '' flg,
      errorFn = LogWrite 0, debugFn = NoOpFn, infoFn = LogWrite 0\<rparr>]\<rparr>"
  by (simp add: armed_def svc_def New_Info initial_def)

lemma armed_Debug:
  "armed LevelDebug flg = initial\<lparr>heap := [\<lparr>log = stdlog_New Stdout ''svc '' flg,
      errorFn = LogWrite 0, debugFn = LogWrite 0, infoFn = LogWrite 0\<rparr>]\<rparr>"
  by (simp add: armed_def svc_def New_Debug initial_def)

lemma bogus_unknown:
  "''bogus'' \<noteq> LevelDebug" "''bogus'' \<noteq> LevelInfo" "''bogus'' \<noteq> LevelError"
  by (simp_all add: LevelDebug_def LevelInfo_def LevelError_def)

lemma armed_bogus:
  "armed ''bogus'' flg = initial\<lparr>heap := [\<lparr>log = stdlog_New Stdout ''svc '' flg,
      errorFn = NoOpFn, debugFn = NoOpFn, infoFn = NoOpFn\<rparr>]\<rparr>"
  by (simp add: armed_def svc_def New_unknown bogus_unknown initial_def)

text \<open>
  C5. A level name other than \<open>Error\<close>, \<open>Info\<close> and \<open>Debug\<close> matches no case of the
  switch: \<open>Level\<close> returns its receiver and the process is exactly as before, whatever
  the arming and even for a nil receiver.
\<close>

theorem C5_unknown_level_unchanged:
  "lv \<notin> {LevelError, LevelInfo, LevelDebug} \<Longrightarrow> Logger_Level l lv st = Inr (l, st)"
  by (simp add: Level_other)

text \<open>A logger armed at \<open>Info\<close> keeps Error and Info active and Debug inactive.\<close>

theorem C5_unknown_level_unchanged_witness:
  "''bogus'' \<notin> {LevelError, LevelInfo, LevelDebug} \<and>
   Logger_Level 0 ''bogus'' (armed LevelInfo 0) = Inr (0, armed LevelInfo 0) \<and>
   active (errorFn (heap (armed LevelInfo 0) ! 0)) \<and>
   active (infoFn (heap (armed LevelInfo 0) ! 0)) \<and>
   \<not> active (debugFn (heap (armed LevelInfo 0) ! 0))"
proof -
  have unknown: "''bogus'' \<notin> {LevelError, LevelInfo, LevelDebug}"
    by (simp add: bogus_unknown)
  from C5_unknown_level_unchanged [OF unknown, of 0 "armed LevelInfo 0"] unknown
  show ?thesis by (simp add: armed_Info active_def)
qed

text \<open>
  C1. \<open>Level\<close> only ever stores \<open>l.logWrite\<close> into slots; no case stores \<open>NoOpFn\<close>. On a
  logger built at \<open>Debug\<close>, \<open>Level("Error")\<close> therefore changes nothing: Info and Debug
  stay active and their entry points still return writing closures, although the
  arming law asks for both to be inactive after \<open>Level("Error")\<close>.
\<close>

theorem C1_Level_never_disarms:
  "Logger_Level 0 LevelError (armed LevelDebug 0) = Inr (0, armed LevelDebug 0) \<and>
   active (infoFn (heap (armed LevelDebug 0) ! 0)) \<and>
   active (debugFn (heap (armed LevelDebug 0) ! 0)) \<and>
   Logger_Info 0 [''req-42''] (armed LevelDebug 0) = Inr (Printer 0 ''INF[req-42]'') \<and>
   Logger_Debug 0 [''req-42''] (armed LevelDebug 0) = Inr (Printer 0 ''DBG[req-42]'')"
  by (simp add: armed_Debug Level_Error_alloc initial_def active_def Logger_Info_def
      Logger_Debug_def deref_def Logger_logWrite_def InfoStr_def DebugStr_def)

text \<open>From slots that are all \<open>NoOpFn\<close>, as \<open>New\<close> sets them, the arming law holds.\<close>

lemma arming_from_NoOp:
  assumes "l < length (heap st)"
    and "errorFn (heap st ! l) = NoOpFn" "infoFn (heap st ! l) = NoOpFn"
        "debugFn (heap st ! l) = NoOpFn"
    and "lv \<in> {LevelError, LevelInfo, LevelDebug}"
  shows "\<exists>st'. Logger_Level l lv st = Inr (l, st') \<and>
           active (errorFn (heap st' ! l)) \<and>
           (active (infoFn (heap st' ! l)) \<longleftrightarrow> lv = LevelInfo \<or> lv = LevelDebug) \<and>
           (active (debugFn (heap st' ! l)) \<longleftrightarrow> lv = LevelDebug)"
  using assms
  by (auto simp add: Level_Error_alloc Level_Info_alloc Level_Debug_alloc active_def
      level_names_distinct)

text \<open>
  C4. With a \<open>Level\<close> field other than the three names, \<open>New\<close> returns (without panic) a
  pointer to a logger whose three slots are \<open>NoOpFn\<close>; \<open>Error\<close>, \<open>Info\<close> and \<open>Debug\<close> on
  it return the discarding closure for every context list.
\<close>

theorem C4_unknown_level_at_construction:
  "Level c \<notin> {LevelError, LevelInfo, LevelDebug} \<Longrightarrow>
   \<exists>l st'. New c st = Inr (l, st') \<and>
     deref st' l = Some \<lparr>log = stdlog_New Stdout (Prefix c @ '' '') (Flags c),
                         errorFn = NoOpFn, debugFn = NoOpFn, infoFn = NoOpFn\<rparr> \<and>
     Logger_Error l ctx st' = Inr Discard \<and>
     Logger_Info l ctx st' = Inr Discard \<and>
     Logger_Debug l ctx st' = Inr Discard"
  by (simp add: New_unknown deref_def Logger_Error_def Logger_Info_def Logger_Debug_def)

theorem C4_unknown_level_at_construction_witness:
  "Level (svc ''bogus'' 0) \<notin> {LevelError, LevelInfo, LevelDebug} \<and>
   New (svc ''bogus'' 0) initial = Inr (0, armed ''bogus'' 0) \<and>
   Logger_Error 0 [''a'', ''b''] (armed ''bogus'' 0) = Inr Discard \<and>
   Logger_Info 0 [''a'', ''b''] (armed ''bogus'' 0) = Inr Discard \<and>
   Logger_Debug 0 [''a'', ''b''] (armed ''bogus'' 0) = Inr Discard"
proof -
  have unknown: "Level (svc ''bogus'' 0) \<notin> {LevelError, LevelInfo, LevelDebug}"
    by (simp add: svc_def bogus_unknown)
  from C4_unknown_level_at_construction [OF unknown, of initial "[''a'', ''b'']"]
  obtain l st' where new: "New (svc ''bogus'' 0) initial = Inr (l, st')"
    and calls: "Logger_Error l [''a'', ''b''] st' = Inr Discard"
      "Logger_Info l [''a'', ''b''] st' = Inr Discard"
      "Logger_Debug l [''a'', ''b''] st' = Inr Discard"
    by blast
  have "New (svc ''bogus'' 0) initial = Inr (0, armed ''bogus'' 0)"
    by (simp add: New_unknown svc_def bogus_unknown armed_bogus initial_def)
  with new have "l = 0" "st' = armed ''bogus'' 0" by simp_all
  with unknown new calls show ?thesis by simp
qed

subsection \<open>Idempotence of \<open>Level\<close>\<close>

lemma Level_cases:
  assumes "Logger_Level l lv st = Inr (l', st')"
  obtains (unknown) "lv \<noteq> LevelDebug" "lv \<noteq> LevelInfo" "lv \<noteq> LevelError" "l' = l" "st' = st"
  | (err) "lv = LevelError" "l < length (heap st)" "l' = l"
      "st' = st\<lparr>heap := (heap st)[l := (heap st ! l)\<lparr>errorFn := LogWrite l\<rparr>]\<rparr>"
  | (info) "lv = LevelInfo" "l < length (heap st)" "l' = l"
      "st' = st\<lparr>heap := (heap st)[l := (heap st ! l)\<lparr>infoFn := LogWrite l,
                errorFn := LogWrite l\<rparr>]\<rparr>"
  | (debug) "lv = LevelDebug" "l < length (heap st)" "l' = l"
      "st' = st\<lparr>heap := (heap st)[l := (heap st ! l)\<lparr>debugFn := LogWrite l,
                infoFn := LogWrite l, errorFn := LogWrite l\<rparr>]\<rparr>"
proof (cases "lv = LevelDebug \<or> lv = LevelInfo \<or> lv = LevelError")
  case False
  with assms have "l' = l" "st' = st" by (simp_all add: Level_other)
  with False show ?thesis by (intro unknown) simp_all
next
  case known: True
  show ?thesis
  proof (cases "l < length (heap st)")
    case False
    with known assms show ?thesis by (simp add: Level_nil)
  next
    case True
    from known consider "lv = LevelDebug" | "lv = LevelInfo" | "lv = LevelError" by blast
    then show ?thesis
    proof cases
      case 1
      with True assms show ?thesis by (intro debug) (auto simp add: Level_Debug_alloc)
    next
      case 2
      with True assms show ?thesis by (intro info) (auto simp add: Level_Info_alloc)
    next
      case 3
      with True assms show ?thesis by (intro err) (auto simp add: Level_Error_alloc)
    qed
  qed
qed





subsection \<open>The ladder invariant, the silent path and the frame\<close>

lemma stream_Write_frame:
  "heap (stream_Write w b st) = heap st"
  "std (stream_Write w b st) = std st"
  "exited (stream_Write w b st) = exited st"
  by (simp_all add: stream_Write_def split: stream.splits)

lemma call_PrintFunc_frame:
  assumes "call_PrintFunc lib pf format args e st = Some (Inr st')"
  shows "heap st' = heap st \<and> std st' = std st \<and> exited st' = exited st"
proof (cases pf)
  case Discard
  with assms show ?thesis by simp
next
  case (Printer l pfx)
  with assms show ?thesis
    by (auto simp add: stdlog_Printf_def stdlog_Output_def stream_Write_frame
        split: option.splits)
qed

lemma ladder_update:
  assumes "ladder g"
  shows "ladder (g\<lparr>errorFn := LogWrite l\<rparr>)"
    "ladder (g\<lparr>infoFn := LogWrite l, errorFn := LogWrite l\<rparr>)"
    "ladder (g\<lparr>debugFn := LogWrite l, infoFn := LogWrite l, errorFn := LogWrite l\<rparr>)"
  using assms by (simp_all add: ladder_def active_def)

lemma Level_keeps_ladder:
  assumes "Logger_Level l lv st = Inr (l', st')"
    and "\<forall>i < length (heap st). ladder (heap st ! i)"
  shows "\<forall>i < length (heap st'). ladder (heap st' ! i)"
  using assms(1)
proof (cases rule: Level_cases)
  case unknown
  with assms(2) show ?thesis by simp
next
  case err
  with assms(2) show ?thesis by (simp add: nth_list_update ladder_update)
next
  case info
  with assms(2) show ?thesis by (simp add: nth_list_update ladder_update)
next
  case debug
  with assms(2) show ?thesis by (simp add: nth_list_update ladder_update)
qed

lemma New_keeps_ladder:
  assumes "New c st = Inr (l, st')"
    and "\<forall>i < length (heap st). ladder (heap st ! i)"
  shows "\<forall>i < length (heap st'). ladder (heap st' ! i)"
proof -
  let ?st1 = "st\<lparr>heap := heap st @ [\<lparr>log = stdlog_New Stdout (Prefix c @ '' '') (Flags c),
                      errorFn = NoOpFn, debugFn = NoOpFn, infoFn = NoOpFn\<rparr>]\<rparr>"
  from assms(1) obtain l1 where lev: "Logger_Level (length (heap st)) (Level c) ?st1 = Inr (l1, st')"
    by (auto simp add: New_total split: sum.splits)
  have "\<forall>i < length (heap ?st1). ladder (heap ?st1 ! i)"
    using assms(2) by (simp add: nth_append ladder_def active_def)
  with lev show ?thesis by (rule Level_keeps_ladder)
qed

lemma reachable_ladder:
  assumes "reachable st"
  shows "\<forall>i < length (heap st). ladder (heap st ! i)"
  using assms
proof (induction rule: reachable.induct)
  case start
  show ?case by (simp add: initial_def)
next
  case (new st c l st')
  from new.hyps(2) new.IH show ?case by (rule New_keeps_ladder)
next
  case (set_level st l lv l' st')
  from set_level.hyps(2) set_level.IH show ?case by (rule Level_keeps_ladder)
next
  case (print st lib pf format args e st')
  from call_PrintFunc_frame [OF print.hyps(2)] print.IH show ?case by simp
qed

text \<open>
  C6. In every state reached from the start of the process through \<open>New\<close>, \<open>Level\<close>
  (with any string, on any pointer) and calls of formatters, every logger's active slots
  are a prefix of Error, Info, Debug: Debug active implies Info and Error active, and
  Info active implies Error active.
\<close>

theorem C6_ladder_invariant:
  "reachable st \<Longrightarrow> l < length (heap st) \<Longrightarrow>
     (active (debugFn (heap st ! l)) \<longrightarrow>
        active (infoFn (heap st ! l)) \<and> active (errorFn (heap st ! l))) \<and>
     (active (infoFn (heap st ! l)) \<longrightarrow> active (errorFn (heap st ! l)))"
  using reachable_ladder [of st] by (auto simp add: ladder_def)

text \<open>
  A logger built at \<open>Debug\<close>: Debug is active, and so are Info and Error.
\<close>

theorem C6_ladder_invariant_witness:
  "reachable (armed LevelDebug 0) \<and> 0 < length (heap (armed LevelDebug 0)) \<and>
   active (debugFn (heap (armed LevelDebug 0) ! 0)) \<and>
   active (infoFn (heap (armed LevelDebug 0) ! 0)) \<and>
   active (errorFn (heap (armed LevelDebug 0) ! 0))"
proof -
  have "New (svc LevelDebug 0) initial = Inr (0, armed LevelDebug 0)"
    by (simp add: New_Debug svc_def armed_Debug initial_def)
  with reachable.start have r: "reachable (armed LevelDebug 0)" by (rule reachable.new)
  have a: "0 < length (heap (armed LevelDebug 0))" by (simp add: armed_Debug)
  have d: "active (debugFn (heap (armed LevelDebug 0) ! 0))" by (simp add: armed_Debug active_def)
  from C6_ladder_invariant [OF r a] r a d show ?thesis by simp
qed

text \<open>
  C3. When the slot of a severity holds \<open>NoOpFn\<close>, the entry point followed by the
  call of the closure it returns leaves the whole process as it was (heap, both streams,
  exit status), for every context list, format and operand list; the format is not even
  looked at.
\<close>

theorem C3_NoOp_purity:
  "deref st l = Some g \<Longrightarrow>
     (errorFn g = NoOpFn \<longrightarrow>
        log_call lib Logger_Error l ctx format args e st = Some (Inr st)) \<and>
     (infoFn g = NoOpFn \<longrightarrow>
        log_call lib Logger_Info l ctx format args e st = Some (Inr st)) \<and>
     (debugFn g = NoOpFn \<longrightarrow>
        log_call lib Logger_Debug l ctx format args e st = Some (Inr st))"
  by (simp add: log_call_def Logger_Error_def Logger_Info_def Logger_Debug_def)

text \<open>
  A fully silent logger, with formats whose directives do not match the operands.
\<close>

theorem C3_NoOp_purity_witness:
  "deref (armed ''bogus'' 0) 0 = Some (heap (armed ''bogus'' 0) ! 0) \<and>
   errorFn (heap (armed ''bogus'' 0) ! 0) = NoOpFn \<and>
   infoFn (heap (armed ''bogus'' 0) ! 0) = NoOpFn \<and>
   debugFn (heap (armed ''bogus'' 0) ! 0) = NoOpFn \<and>
   log_call fmt_plain Logger_Error 0 [''a''] ''%d and %d'' [StringV ''x''] env0 (armed ''bogus'' 0)
     = Some (Inr (armed ''bogus'' 0)) \<and>
   log_call fmt_plain Logger_Info 0 [''a''] ''%5.2f'' [] env0 (armed ''bogus'' 0)
     = Some (Inr (armed ''bogus'' 0)) \<and>
   log_call fmt_plain Logger_Debug 0 [] ''done'' [IntV 1, IntV 2] env0 (armed ''bogus'' 0)
     = Some (Inr (armed ''bogus'' 0))"
proof -
  have d: "deref (armed ''bogus'' 0) 0 = Some (heap (armed ''bogus'' 0) ! 0)"
    by (simp add: deref_def armed_bogus)
  have s: "errorFn (heap (armed ''bogus'' 0) ! 0) = NoOpFn"
    "infoFn (heap (armed ''bogus'' 0) ! 0) = NoOpFn"
    "debugFn (heap (armed ''bogus'' 0) ! 0) = NoOpFn"
    by (simp_all add: armed_bogus)
  from C3_NoOp_purity [OF d, of fmt_plain "[''a'']" "''%d and %d''" "[StringV ''x'']" env0]
    C3_NoOp_purity [OF d, of fmt_plain "[''a'']" "''%5.2f''" "[]" env0]
    C3_NoOp_purity [OF d, of fmt_plain "[]" "''done''" "[IntV 1, IntV 2]" env0] d s
  show ?thesis by simp
qed


lemma stdlog_Output_frame:
  "heap (stdlog_Output L s e st) = heap st"
  "std (stdlog_Output L s e st) = std st"
  "exited (stdlog_Output L s e st) = exited st"
  by (simp_all add: stdlog_Output_def stream_Write_frame)

text \<open>
  C10. An entry point followed by the call of the returned closure leaves the heap of
  loggers (slots and writer configuration), the standard logger and the exit status as
  they were; only a stream may grow. The entry points themselves return a closure and
  no state. Whatever text is formatted, the writer's \<open>Output\<close> leaves the heap alone,
  and so does \<open>Fatal\<close>.
\<close>

theorem C10_entry_points_read_only:
  "(entry \<in> {Logger_Error, Logger_Info, Logger_Debug} \<longrightarrow>
    log_call lib entry l ctx format args e st = Some (Inr st') \<longrightarrow>
      heap st' = heap st \<and> std st' = std st \<and> exited st' = exited st) \<and>
   heap (stdlog_Output L s e st) = heap st \<and>
   heap (Fatal v e st) = heap st"
proof (intro conjI impI)
  assume "log_call lib entry l ctx format args e st = Some (Inr st')"
  then obtain pf where "call_PrintFunc lib pf format args e st = Some (Inr st')"
    by (auto simp add: log_call_def split: sum.splits)
  then have "heap st' = heap st \<and> std st' = std st \<and> exited st' = exited st"
    by (rule call_PrintFunc_frame)
  then show "heap st' = heap st" "std st' = std st" "exited st' = exited st" by simp_all
next
  show "heap (stdlog_Output L s e st) = heap st" by (rule stdlog_Output_frame)
  show "heap (Fatal v e st) = heap st"
    by (simp add: Fatal_def stdlog_Fatal_def stdlog_Output_frame)
qed

lemmas scan_defs =
  directive_def is_flag_def argNumber_def number_or_star_def is_digit_def precision_def
  last_index_def verb_def rune_size_def lead_size_def decoded_size_def fmt_plain_def emit_def
  printArg_def

lemma Sprintf_started:
  "Sprintf fmt_plain ''INF[req-42]<started %s>'' [StringV ''job1''] =
     Some ''INF[req-42]<started job1>''"
  by (simp add: Sprintf_def scan_defs)

text \<open>
  The example of the specification: prefix \<open>svc\<close>, no flags, level \<open>Info\<close>, context
  \<open>req-42\<close>, format \<open>started %s\<close> with operand \<open>job1\<close>.
\<close>

lemma spec_example_line:
  "log_call fmt_plain Logger_Info 0 [''req-42''] ''started %s'' [StringV ''job1''] env0 (armed LevelInfo 0) =
     Some (Inr ((armed LevelInfo 0)\<lparr>stdout := [''svc INF[req-42]<started job1>'' @ [newline]]\<rparr>))"
  by (simp add: log_call_def Logger_Info_def deref_def armed_Info initial_def InfoStr_def
      Logger_logWrite_def stdlog_Printf_def Sprintf_started stdlog_Output_def stdlog_New_def
      formatHeader_def decorations_def Lmsgprefix_def Ldate_def Ltime_def Lmicroseconds_def
      Lshortfile_def Llongfile_def stream_Write_def newline_def)

text \<open>
  The specification's example line, written by a logger armed at \<open>Info\<close>.
\<close>

theorem C10_entry_points_read_only_witness:
  "Logger_Info \<in> {Logger_Error, Logger_Info, Logger_Debug} \<and>
   log_call fmt_plain Logger_Info 0 [''req-42''] ''started %s'' [StringV ''job1''] env0 (armed LevelInfo 0) =
     Some (Inr ((armed LevelInfo 0)\<lparr>stdout := [''svc INF[req-42]<started job1>'' @ [newline]]\<rparr>)) \<and>
   heap ((armed LevelInfo 0)\<lparr>stdout := [''svc INF[req-42]<started job1>'' @ [newline]]\<rparr>)
     = heap (armed LevelInfo 0)"
proof -
  have m: "Logger_Info \<in> {Logger_Error, Logger_Info, Logger_Debug}" by simp
  from C10_entry_points_read_only [of Logger_Info fmt_plain 0 "[''req-42'']" "''started %s''"
      "[StringV ''job1'']" env0 "armed LevelInfo 0"
      "(armed LevelInfo 0)\<lparr>stdout := [''svc INF[req-42]<started job1>'' @ [newline]]\<rparr>"]
    m spec_example_line
  show ?thesis by blast
qed

subsection \<open>\<open>Fatal\<close> and the superseded package\<close>

lemma decimal_small: "n < 10 \<Longrightarrow> decimal n = [digit n]"
  by (simp add: decimal.simps)

lemma decimal_step: "\<not> n < 10 \<Longrightarrow> decimal n = decimal (n div 10) @ [digit (n mod 10)]"
  by (subst decimal.simps) simp












lemma legacy_levels:
  "sint LevelError1 = 0" "sint LevelInfo1 = 1" "sint LevelDebug1 = 2"
  by (simp_all add: LevelError1_def LevelInfo1_def LevelDebug1_def)

lemma legacy_gate_open:
  assumes "sint LevelError1 \<le> sint (level l)"
  shows "Logger1_Info l ctx = Printer1 (log1 l) (InfoStr1 @ ''['' @ Join ctx ''|'' @ '']'')"
    and "Logger1_Debug l ctx = Printer1 (log1 l) (DebugStr1 @ ''['' @ Join ctx ''|'' @ '']'')"
  using assms by (simp_all add: Logger1_Info_def Logger1_Debug_def Logger1_logWrite_def)

lemma legacy_at_Error:
  "level (Logger1_Level (New1 w P flg) LevelError1) = LevelError1"
  by (simp add: Logger1_Level_def)


lemma New_at_Error_silent:
  "\<exists>n st'. New \<lparr>Level = LevelError, Prefix = P, Flags = flg\<rparr> st = Inr (n, st') \<and>
      Logger_Info n ctx st' = Inr Discard \<and> Logger_Debug n ctx st' = Inr Discard"
  by (simp add: New_Error Logger_Info_def Logger_Debug_def deref_def)

text \<open>
  C8. In \<open>log1.go\<close>, \<open>LevelError\<close> is 0, below \<open>LevelInfo\<close> and \<open>LevelDebug\<close>, and
  \<open>Info\<close> and \<open>Debug\<close> compare the level with \<open>LevelError\<close>: for every legacy logger
  whose level is at least \<open>LevelError\<close> both return the writing closure of \<open>logWrite\<close>.
  At level \<open>Error\<close> the legacy \<open>Info\<close> and \<open>Debug\<close> therefore write, while a logger that
  \<open>New\<close> of \<open>log.go\<close> builds at level \<open>Error\<close> returns the discarding closure from both: the
  two packages are not equivalent.
\<close>

theorem C8_legacy_gate:
  "sint LevelError1 = 0 \<and> sint LevelError1 < sint LevelInfo1 \<and> sint LevelInfo1 < sint LevelDebug1 \<and>
   (sint LevelError1 \<le> sint (level l) \<longrightarrow>
      Logger1_Info l ctx = Printer1 (log1 l) (InfoStr1 @ ''['' @ Join ctx ''|'' @ '']'') \<and>
      Logger1_Debug l ctx = Printer1 (log1 l) (DebugStr1 @ ''['' @ Join ctx ''|'' @ '']'')) \<and>
   writes1 (Logger1_Info (Logger1_Level (New1 w P flg) LevelError1) ctx) \<and>
   writes1 (Logger1_Debug (Logger1_Level (New1 w P flg) LevelError1) ctx) \<and>
   (\<exists>n st'. New \<lparr>Level = LevelError, Prefix = P, Flags = flg\<rparr> st = Inr (n, st') \<and>
      Logger_Info n ctx st' = Inr Discard \<and> Logger_Debug n ctx st' = Inr Discard) \<and>
   \<not> writes Discard"
proof -
  have open_at_Error:
    "sint LevelError1 \<le> sint (level (Logger1_Level (New1 w P flg) LevelError1))"
    by (simp add: legacy_at_Error)
  have "writes1 (Logger1_Info (Logger1_Level (New1 w P flg) LevelError1) ctx)"
    "writes1 (Logger1_Debug (Logger1_Level (New1 w P flg) LevelError1) ctx)"
    by (simp_all add: legacy_gate_open [OF open_at_Error] writes1_def)
  moreover have "\<not> writes Discard" by (simp add: writes_def)
  ultimately show ?thesis
    using New_at_Error_silent [of P flg st ctx] legacy_gate_open [of l ctx]
    by (simp add: legacy_levels)
qed

text \<open>
  A legacy logger set to \<open>LevelError\<close>.
\<close>

theorem C8_legacy_gate_witness:
  "sint LevelError1 \<le> sint (level (Logger1_Level (New1 Stdout ''svc'' 0) LevelError1)) \<and>
   Logger1_Info (Logger1_Level (New1 Stdout ''svc'' 0) LevelError1) [''x''] =
     Printer1 (stdlog_New Stdout ''svc '' 0) ''[Info ][x]'' \<and>
   Logger1_Debug (Logger1_Level (New1 Stdout ''svc'' 0) LevelError1) [''x''] =
     Printer1 (stdlog_New Stdout ''svc '' 0) ''[Debug][x]''"
proof -
  have h: "sint LevelError1 \<le> sint (level (Logger1_Level (New1 Stdout ''svc'' 0) LevelError1))"
    by (simp add: legacy_at_Error)
  have w: "log1 (Logger1_Level (New1 Stdout ''svc'' 0) LevelError1) = stdlog_New Stdout ''svc '' 0"
    by (simp add: Logger1_Level_def New1_def)
  from C8_legacy_gate [of "Logger1_Level (New1 Stdout ''svc'' 0) LevelError1" "[''x'']"] h
  have "Logger1_Info (Logger1_Level (New1 Stdout ''svc'' 0) LevelError1) [''x''] =
          Printer1 (log1 (Logger1_Level (New1 Stdout ''svc'' 0) LevelError1))
            (InfoStr1 @ ''['' @ Join [''x''] ''|'' @ '']'')"
    and "Logger1_Debug (Logger1_Level (New1 Stdout ''svc'' 0) LevelError1) [''x''] =
          Printer1 (log1 (Logger1_Level (New1 Stdout ''svc'' 0) LevelError1))
            (DebugStr1 @ ''['' @ Join [''x''] ''|'' @ '']'')"
    by blast+
  with h w show ?thesis by (simp add: InfoStr1_def DebugStr1_def)
qed

subsection \<open>The emitted line\<close>

lemma emit_Some: "emit s (Some (t, n, r)) = Some (s @ t, n, r)"
  by (simp add: emit_def)

lemma emit_emit: "emit s (emit t r) = emit (s @ t) r"
  by (cases r) (auto simp add: emit_def)

lemma emit_Nil: "emit [] r = r"
  by (cases r) (auto simp add: emit_def)

text \<open>
  Text without \<open>%\<close> in front of a format is copied and does not change what follows.
\<close>

lemma doPrintf_lit_prefix:
  assumes "CHR ''%'' \<notin> set lit"
  shows "doPrintf lib (lit @ f) a n r = emit lit (doPrintf lib f a n r)"
  using assms
proof (induction lit)
  case Nil
  show ?case by (simp add: emit_Nil)
next
  case (Cons c lit)
  then show ?case by (auto simp add: emit_emit)
qed


text \<open>
  Appending a text without \<open>]\<close> to a format does not move the end of a directive that
  the format holds in full: each part of a directive reads the same.
\<close>

lemma parsenum_append:
  assumes "parsenum num isnum s = Some (b, rest)" and "rest \<noteq> []"
  shows "parsenum num isnum (s @ t) = Some (b, rest @ t)"
  using assms
proof (induction s arbitrary: num isnum)
  case Nil
  then show ?case by simp
next
  case (Cons c cs)
  then show ?case by (auto split: if_splits)
qed

lemma argNumber_append:
  assumes "argNumber s = Some (rest, ok)" and "rest \<noteq> []" and "CHR '']'' \<notin> set t"
  shows "argNumber (s @ t) = Some (rest @ t, ok)"
proof (cases s)
  case Nil
  with assms show ?thesis by (simp add: argNumber_def)
next
  case (Cons c cs)
  show ?thesis
  proof (cases "c = CHR ''[''")
    case False
    with Cons assms show ?thesis by (auto simp add: argNumber_def)
  next
    case bracket: True
    with Cons assms(1) have long: "\<not> length s < 3"
      by (auto simp add: argNumber_def split: if_splits)
    show ?thesis
    proof (cases "CHR '']'' \<in> set cs")
      case False
      with Cons bracket long assms show ?thesis
        by (auto simp add: argNumber_def)
    next
      case True
      then have d: "dropWhile (\<lambda>x. x \<noteq> CHR '']'') (cs @ t) = dropWhile (\<lambda>x. x \<noteq> CHR '']'') cs @ t"
        and k: "takeWhile (\<lambda>x. x \<noteq> CHR '']'') (cs @ t) = takeWhile (\<lambda>x. x \<noteq> CHR '']'') cs"
        and ne: "dropWhile (\<lambda>x. x \<noteq> CHR '']'') cs \<noteq> []"
        by (auto simp add: dropWhile_append1 takeWhile_append1 dropWhile_eq_Nil_conv)
      from Cons bracket long True assms(1)
      have "rest = tl (dropWhile (\<lambda>x. x \<noteq> CHR '']'') cs)"
        and "ok = (parsenum 0 False (takeWhile (\<lambda>x. x \<noteq> CHR '']'') cs) = Some (True, []))"
        by (auto simp add: argNumber_def)
      with Cons bracket long True d k ne show ?thesis
        by (auto simp add: argNumber_def)
    qed
  qed
qed

lemma number_or_star_append:
  assumes "number_or_star s after = Some (rest, after')" and "rest \<noteq> []"
  shows "number_or_star (s @ t) after = Some (rest @ t, after')"
proof (cases "s \<noteq> [] \<and> hd s = CHR ''*''")
  case True
  with assms show ?thesis by (auto simp add: number_or_star_def)
next
  case False
  with assms obtain b where p: "parsenum 0 False s = Some (b, rest)" and a: "after' = after"
    by (auto simp add: number_or_star_def)
  from p assms(2) have "s \<noteq> []" by auto
  with False have n: "\<not> (s @ t \<noteq> [] \<and> hd (s @ t) = CHR ''*'')" by simp
  show ?thesis
    by (simp only: number_or_star_def n if_False parsenum_append [OF p assms(2)] option.map
        prod.case a)
qed


lemma argNumber_Nil: "argNumber [] = Some ([], False)"
  by (simp add: argNumber_def)

lemma number_or_star_Nil: "number_or_star [] after = Some ([], after)"
  by (simp add: number_or_star_def)

lemma precision_Nil: "precision [] after = Some ([], after)"
  by (simp add: precision_def)

lemma precision_append:
  assumes "precision s after = Some (rest, after')" and "rest \<noteq> []" and "CHR '']'' \<notin> set t"
  shows "precision (s @ t) after = Some (rest @ t, after')"
proof (cases "s \<noteq> [] \<and> hd s = CHR ''.''")
  case False
  with assms have "rest = s" "after' = after" by (auto simp add: precision_def)
  with False assms(2) show ?thesis by (auto simp add: precision_def)
next
  case True
  with assms(1) obtain s' a' where
    i: "argNumber (tl s) = Some (s', a')" and n: "number_or_star s' a' = Some (rest, after')"
    by (auto simp add: precision_def split: option.splits)
  from n assms(2) have ne: "s' \<noteq> []" by (auto simp add: number_or_star_Nil)
  from i ne assms(3) have "argNumber (tl s @ t) = Some (s' @ t, a')" by (rule argNumber_append)
  moreover from n assms(2) have "number_or_star (s' @ t) a' = Some (rest @ t, after')"
    by (rule number_or_star_append)
  moreover from True have "s @ t \<noteq> [] \<and> hd (s @ t) = CHR ''.''" "tl (s @ t) = tl s @ t" by auto
  ultimately show ?thesis by (simp add: precision_def)
qed

lemma last_index_append:
  assumes "last_index s after = Some rest" and "rest \<noteq> []" and "CHR '']'' \<notin> set t"
  shows "last_index (s @ t) after = Some (rest @ t)"
proof (cases after)
  case True
  with assms show ?thesis by (simp add: last_index_def)
next
  case False
  with assms(1) obtain ok where "argNumber s = Some (rest, ok)"
    by (auto simp add: last_index_def)
  from this assms(2,3) have "argNumber (s @ t) = Some (rest @ t, ok)" by (rule argNumber_append)
  with False show ?thesis by (simp add: last_index_def)
qed

lemma lead_size_positive: "0 < lead_size b"
  by (simp add: lead_size_def)

lemma decoded_size_le: "decoded_size s \<le> lead_size (of_char (s ! 0))"
  by (simp add: decoded_size_def Let_def lead_size_def)

lemma rune_size_append:
  assumes "rune_size s = Some k" and "s \<noteq> []"
  shows "rune_size (s @ t) = Some k \<and> k \<le> length s"
proof -
  let ?sz = "lead_size (of_char (s ! 0))"
  from assms(2) have z: "(s @ t) ! 0 = s ! 0" by (simp add: nth_append)
  from assms(1) have fits: "?sz \<le> length s" and k: "k = decoded_size (take ?sz s)"
    by (auto simp add: rune_size_def Let_def split: if_splits)
  from fits have same: "take ?sz (s @ t) = take ?sz s" by simp
  from lead_size_positive [of "of_char (s ! 0)"] have "take ?sz s ! 0 = s ! 0" by simp
  with decoded_size_le [of "take ?sz s"] k fits have "k \<le> length s" by simp
  moreover from fits same k z have "rune_size (s @ t) = Some k"
    by (simp add: rune_size_def Let_def)
  ultimately show ?thesis by simp
qed

lemma verb_append:
  assumes "verb s = Some rest"
  shows "verb (s @ t) = Some (rest @ t) \<and> s \<noteq> []"
proof -
  from assms have ne: "s \<noteq> []" by (auto simp add: verb_def split: if_splits)
  with assms obtain k where k: "rune_size s = Some k" and r: "rest = drop k s"
    by (auto simp add: verb_def)
  from rune_size_append [OF k ne, of t] ne r show ?thesis
    by (simp add: verb_def)
qed

lemma last_index_Nil: "last_index [] after = Some []"
  by (simp add: last_index_def argNumber_Nil)

lemma directive_append:
  assumes "directive s = Some k" and "CHR '']'' \<notin> set t"
  shows "directive (s @ t) = Some k \<and> k \<le> length s"
proof -
  from assms(1) obtain s1 a1 s2 a2 s3 a3 s4 rest where
    st1: "argNumber (dropWhile is_flag s) = Some (s1, a1)" and
    st2: "number_or_star s1 a1 = Some (s2, a2)" and
    st3: "precision s2 a2 = Some (s3, a3)" and
    st4: "last_index s3 a3 = Some s4" and
    st5: "verb s4 = Some rest" and
    k: "k = length s - length rest"
    by (auto simp add: directive_def split: option.splits)
  from verb_append [OF st5, of t] have v: "verb (s4 @ t) = Some (rest @ t)" and n4: "s4 \<noteq> []"
    by simp_all
  from st4 n4 have n3: "s3 \<noteq> []" by (auto simp add: last_index_Nil)
  from st3 n3 have n2: "s2 \<noteq> []" by (auto simp add: precision_Nil)
  from st2 n2 have n1: "s1 \<noteq> []" by (auto simp add: number_or_star_Nil)
  have n0: "dropWhile is_flag s \<noteq> []"
  proof
    assume "dropWhile is_flag s = []"
    with st1 have "s1 = []" by (simp add: argNumber_Nil)
    with n1 show False by simp
  qed
  then have f: "dropWhile is_flag (s @ t) = dropWhile is_flag s @ t"
    by (auto simp add: dropWhile_append1 dropWhile_eq_Nil_conv)
  from st1 n1 assms(2) have "argNumber (dropWhile is_flag s @ t) = Some (s1 @ t, a1)"
    by (rule argNumber_append)
  moreover from st2 n2 have "number_or_star (s1 @ t) a1 = Some (s2 @ t, a2)"
    by (rule number_or_star_append)
  moreover from st3 n3 assms(2) have "precision (s2 @ t) a2 = Some (s3 @ t, a3)"
    by (rule precision_append)
  moreover from st4 n4 assms(2) have "last_index (s3 @ t) a3 = Some (s4 @ t)"
    by (rule last_index_append)
  ultimately have "directive (s @ t) = Some (length (s @ t) - length (rest @ t))"
    using v f by (simp add: directive_def)
  with k show ?thesis by simp
qed

text \<open>
  A text without \<open>%\<close> and \<open>]\<close> appended to a format that does not end inside a
  directive is copied to the end of the output.
\<close>

lemma doPrintf_append:
  assumes "\<not> unfinished f" and "doPrintf lib f a n r = Some (b, n', r')"
    and "CHR '']'' \<notin> set t" and "CHR ''%'' \<notin> set t"
  shows "doPrintf lib (f @ t) a n r = Some (b @ t, n', r')"
  using assms(1,2)
proof (induction lib f a n r arbitrary: b rule: doPrintf.induct)
  case (1 lib a argNum reordered)
  from doPrintf_lit_prefix [OF assms(4), of lib "[]" a argNum reordered] 1
  show ?case by (simp add: emit_Some)
next
  case (2 lib c cs a argNum reordered)
  show ?case
  proof (cases "c = CHR ''%''")
    case False
    with "2.prems" obtain b' where
      tl: "doPrintf lib cs a argNum reordered = Some (b', n', r')" and b: "b = c # b'"
      by (auto simp add: emit_def)
    from "2.prems" False have "\<not> unfinished cs" by simp
    from "2.IH"(1) [OF False this tl] False b show ?thesis
      by (simp add: emit_Some)
  next
    case True
    with "2.prems"(1) obtain k where d: "directive cs = Some k" and u: "\<not> unfinished (drop k cs)"
      by (auto split: option.splits)
    from directive_append [OF d assms(3)]
    have d': "directive (cs @ t) = Some k" and le: "k \<le> length cs" by simp_all
    from "2.prems"(2) True d obtain x m ro b' where
      rd: "render lib (take k cs) a argNum reordered = Some (x, m, ro)" and
      tl: "doPrintf lib (drop k cs) a m ro = Some (b', n', r')" and b: "b = x @ b'"
      by (auto simp add: emit_def split: option.splits)
    have "doPrintf lib (drop k cs @ t) a m ro = Some (b' @ t, n', r')"
      using "2.IH"(2) [OF _ d rd _ _ u tl] True by simp
    with True d' le rd b show ?thesis
      by (simp add: emit_Some)
  qed
qed

lemma Join_no_percent:
  assumes "\<forall>c \<in> set ctx. CHR ''%'' \<notin> set c"
  shows "CHR ''%'' \<notin> set (Join ctx ''|'')"
  using assms by (induction ctx "''|''" rule: Join.induct) auto

lemma Sprintf_wrapped:
  assumes tag: "CHR ''%'' \<notin> set T"
    and ctx: "\<forall>c \<in> set ctx. CHR ''%'' \<notin> set c"
    and body: "doPrintf lib F A 0 False = Some (body, n, r)"
    and used: "r \<or> length A \<le> n"
    and fin: "\<not> unfinished F"
  shows "Sprintf lib ((T @ ''['' @ Join ctx ''|'' @ '']'') @ ''<'' @ F @ ''>'') A =
           Some (T @ ''['' @ Join ctx ''|'' @ '']'' @ ''<'' @ body @ ''>'')"
proof -
  let ?lit = "T @ ''['' @ Join ctx ''|'' @ '']'' @ ''<''"
  have lit: "CHR ''%'' \<notin> set ?lit"
    using tag Join_no_percent [OF ctx] by simp
  have "doPrintf lib (F @ ''>'') A 0 False = Some (body @ ''>'', n, r)"
    using fin body by (rule doPrintf_append) simp_all
  with doPrintf_lit_prefix [OF lit, of lib "F @ ''>''" A 0 False]
  have "doPrintf lib (?lit @ F @ ''>'') A 0 False = Some (?lit @ body @ ''>'', n, r)"
    by (simp add: emit_Some)
  with used show ?thesis by (auto simp add: Sprintf_def)
qed

text \<open>Under the same conditions \<open>Sprintf\<close> of the template alone is \<open>body\<close>.\<close>

lemma Sprintf_body:
  assumes "doPrintf lib F A 0 False = Some (body, n, r)" and "r \<or> length A \<le> n"
  shows "Sprintf lib F A = Some body"
  using assms by (auto simp add: Sprintf_def)

lemma formatHeader_order:
  "formatHeader e (P @ '' '') flg =
     (if flg AND Lmsgprefix = 0 then P @ '' '' @ decorations e flg
      else decorations e flg @ P @ '' '')"
  by (simp add: formatHeader_def)

lemma Printer_line:
  assumes g: "deref st l = Some g"
    and w: "log g = stdlog_New Stdout (P @ '' '') flg"
    and tag: "CHR ''%'' \<notin> set T"
    and ctx: "\<forall>c \<in> set ctx. CHR ''%'' \<notin> set c"
    and body: "doPrintf lib F A 0 False = Some (body, n, r)"
    and used: "r \<or> length A \<le> n"
    and fin: "\<not> unfinished F"
  shows "call_PrintFunc lib (Logger_logWrite l T ctx) F A e st =
           Some (Inr (st\<lparr>stdout := stdout st @
             [emitted_line e P flg T ctx body @ [newline]]\<rparr>))"
proof -
  let ?msg = "T @ ''['' @ Join ctx ''|'' @ '']'' @ ''<'' @ body @ ''>''"
  have n: "\<not> (?msg = [] \<or> last ?msg \<noteq> newline) \<Longrightarrow> False"
    by (simp add: newline_def)
  have p: "stdlog_Printf lib (log g) ((T @ ''['' @ Join ctx ''|'' @ '']'') @ ''<'' @ F @ ''>'') A e st =
             Some (stdlog_Output (log g) ?msg e st)"
    by (simp only: stdlog_Printf_def Sprintf_wrapped [OF tag ctx body used fin] option.map)
  have o: "stdlog_Output (log g) ?msg e st =
             st\<lparr>stdout := stdout st @ [emitted_line e P flg T ctx body @ [newline]]\<rparr>"
    unfolding stdlog_Output_def w using n
    by (auto simp add: stdlog_New_def stream_Write_def formatHeader_order emitted_line_def)
  have "call_PrintFunc lib (Printer l (T @ ''['' @ Join ctx ''|'' @ '']'')) F A e st =
          Some (Inr (stdlog_Output (log g) ?msg e st))"
    by (simp only: call_PrintFunc.simps g p option.simps option.map)
  then show ?thesis
    by (simp only: Logger_logWrite_def o append_assoc)
qed

text \<open>
  The specification's order (decorations, then prefix) is the emitted one when there
  are no decorations or when \<open>Lmsgprefix\<close> is set.
\<close>

lemma emitted_line_spec_line:
  assumes "flg AND Lmsgprefix \<noteq> 0 \<or> decorations e flg = []"
  shows "emitted_line e P flg T ctx body = spec_line e P flg T ctx body"
  using assms by (auto simp add: emitted_line_def spec_line_def)

text \<open>
  C2, amended. Take any rendering \<open>lib\<close> of the directives (so any operand types, verbs,
  flags, widths and precisions), a logger whose writer was made by \<open>New\<close> with prefix
  \<open>P\<close> and flags \<open>flg\<close>, contexts that contain no \<open>%\<close>, and a format \<open>F\<close> that with the
  operands \<open>A\<close> is formatted to \<open>body\<close>, with no operand left over to report and \<open>F\<close> not
  ending inside a directive. When the slot of a severity with tag \<open>T\<close> is active, the
  entry point followed by the call of the returned closure writes exactly one chunk to
  standard output, namely \<open>P\<close> and a space, then the decorations (the other way round
  under \<open>Lmsgprefix\<close>), then \<open>T\<close>, the contexts in call order joined by \<open>|\<close> inside
  square brackets, \<open>body\<close> inside angle brackets, and a newline; nothing else changes.
\<close>

theorem C2_emitted_line:
  assumes "deref st l = Some g"
    and "log g = stdlog_New Stdout (P @ '' '') flg"
    and "\<forall>c \<in> set ctx. CHR ''%'' \<notin> set c"
    and "doPrintf lib F A 0 False = Some (body, n, r)"
    and "r \<or> length A \<le> n"
    and "\<not> unfinished F"
  shows "Sprintf lib F A = Some body \<and>
         (errorFn g = LogWrite l \<longrightarrow>
            log_call lib Logger_Error l ctx F A e st =
              Some (Inr (st\<lparr>stdout := stdout st @
                [emitted_line e P flg ErrStr ctx body @ [newline]]\<rparr>))) \<and>
         (infoFn g = LogWrite l \<longrightarrow>
            log_call lib Logger_Info l ctx F A e st =
              Some (Inr (st\<lparr>stdout := stdout st @
                [emitted_line e P flg InfoStr ctx body @ [newline]]\<rparr>))) \<and>
         (debugFn g = LogWrite l \<longrightarrow>
            log_call lib Logger_Debug l ctx F A e st =
              Some (Inr (st\<lparr>stdout := stdout st @
                [emitted_line e P flg DebugStr ctx body @ [newline]]\<rparr>)))"
proof -
  have tags: "CHR ''%'' \<notin> set ErrStr" "CHR ''%'' \<notin> set InfoStr" "CHR ''%'' \<notin> set DebugStr"
    by (simp_all add: ErrStr_def InfoStr_def DebugStr_def)
  note line = Printer_line [OF assms(1) assms(2) _ assms(3) assms(4) assms(5) assms(6)]
  show ?thesis
    using assms(1) line [OF tags(1)] line [OF tags(2)] line [OF tags(3)]
      Sprintf_body [OF assms(4) assms(5)]
    by (simp add: log_call_def Logger_Error_def Logger_Info_def Logger_Debug_def)
qed

lemma started_job1:
  "doPrintf fmt_plain ''started %s'' [StringV ''job1''] 0 False = Some (''started job1'', 1, False)"
  "False \<or> length [StringV ''job1''] \<le> 1"
  "\<not> unfinished ''started %s''"
  by (simp_all add: scan_defs)

lemma no_decorations: "decorations e 0 = []"
  by (simp add: decorations_def)

lemma date_decoration: "decorations env0 Ldate = ''2009/01/23 ''"
  by (simp add: decorations_def Ldate_def Ltime_def Lmicroseconds_def LUTC_def
      Lshortfile_def Llongfile_def env0_def itoa_def decimal_step decimal_small digit_def)

text \<open>
  A logger built at \<open>Debug\<close> with prefix \<open>svc\<close> and no flags: the three lines for
  context \<open>req-42\<close>, format \<open>started %s\<close> and operand \<open>job1\<close>.
\<close>

theorem C2_emitted_line_witness:
  "deref (armed LevelDebug 0) 0 = Some (heap (armed LevelDebug 0) ! 0) \<and>
   log (heap (armed LevelDebug 0) ! 0) = stdlog_New Stdout (''svc'' @ '' '') 0 \<and>
   CHR ''%'' \<notin> set ''req-42'' \<and>
   doPrintf fmt_plain ''started %s'' [StringV ''job1''] 0 False = Some (''started job1'', 1, False) \<and>
   \<not> unfinished ''started %s'' \<and>
   Sprintf fmt_plain ''started %s'' [StringV ''job1''] = Some ''started job1'' \<and>
   log_call fmt_plain Logger_Error 0 [''req-42''] ''started %s'' [StringV ''job1''] env0 (armed LevelDebug 0) =
     Some (Inr ((armed LevelDebug 0)\<lparr>stdout := [''svc ER[req-42]<started job1>'' @ [newline]]\<rparr>)) \<and>
   log_call fmt_plain Logger_Info 0 [''req-42''] ''started %s'' [StringV ''job1''] env0 (armed LevelDebug 0) =
     Some (Inr ((armed LevelDebug 0)\<lparr>stdout := [''svc INF[req-42]<started job1>'' @ [newline]]\<rparr>)) \<and>
   log_call fmt_plain Logger_Debug 0 [''req-42''] ''started %s'' [StringV ''job1''] env0 (armed LevelDebug 0) =
     Some (Inr ((armed LevelDebug 0)\<lparr>stdout := [''svc DBG[req-42]<started job1>'' @ [newline]]\<rparr>))"
proof -
  have d: "deref (armed LevelDebug 0) 0 = Some (heap (armed LevelDebug 0) ! 0)"
    by (simp add: deref_def armed_Debug)
  have w: "log (heap (armed LevelDebug 0) ! 0) = stdlog_New Stdout (''svc'' @ '' '') 0"
    by (simp add: armed_Debug)
  have c: "\<forall>c \<in> set [''req-42'']. CHR ''%'' \<notin> set c" by simp
  have slots: "errorFn (heap (armed LevelDebug 0) ! 0) = LogWrite 0"
    "infoFn (heap (armed LevelDebug 0) ! 0) = LogWrite 0"
    "debugFn (heap (armed LevelDebug 0) ! 0) = LogWrite 0"
    by (simp_all add: armed_Debug)
  have out: "stdout (armed LevelDebug 0) = []"
    by (simp add: armed_Debug initial_def)
  have lines:
    "emitted_line env0 ''svc'' 0 ErrStr [''req-42''] ''started job1'' = ''svc ER[req-42]<started job1>''"
    "emitted_line env0 ''svc'' 0 InfoStr [''req-42''] ''started job1'' = ''svc INF[req-42]<started job1>''"
    "emitted_line env0 ''svc'' 0 DebugStr [''req-42''] ''started job1'' = ''svc DBG[req-42]<started job1>''"
    by (simp_all add: emitted_line_def no_decorations ErrStr_def InfoStr_def DebugStr_def)
  from C2_emitted_line [OF d w c started_job1, of env0] slots
  have "Sprintf fmt_plain ''started %s'' [StringV ''job1''] = Some ''started job1''"
    and "log_call fmt_plain Logger_Error 0 [''req-42''] ''started %s'' [StringV ''job1''] env0 (armed LevelDebug 0) =
      Some (Inr ((armed LevelDebug 0)\<lparr>stdout := stdout (armed LevelDebug 0) @
        [emitted_line env0 ''svc'' 0 ErrStr [''req-42''] ''started job1'' @ [newline]]\<rparr>))"
    and "log_call fmt_plain Logger_Info 0 [''req-42''] ''started %s'' [StringV ''job1''] env0 (armed LevelDebug 0) =
      Some (Inr ((armed LevelDebug 0)\<lparr>stdout := stdout (armed LevelDebug 0) @
        [emitted_line env0 ''svc'' 0 InfoStr [''req-42''] ''started job1'' @ [newline]]\<rparr>))"
    and "log_call fmt_plain Logger_Debug 0 [''req-42''] ''started %s'' [StringV ''job1''] env0 (armed LevelDebug 0) =
      Some (Inr ((armed LevelDebug 0)\<lparr>stdout := stdout (armed LevelDebug 0) @
        [emitted_line env0 ''svc'' 0 DebugStr [''req-42''] ''started job1'' @ [newline]]\<rparr>))"
    by blast+
  then show ?thesis
    using d w started_job1 by (simp only: out lines append_Nil simp_thms) simp
qed

text \<open>
  C2 as stated fails once a decoration is selected: with the flag \<open>Ldate\<close> the line
  starts with the prefix and the date follows, while the specification's wording puts
  the date first.
\<close>

theorem C2_decorations_follow_prefix:
  "log_call fmt_plain Logger_Info 0 [''req-42''] ''started %s'' [StringV ''job1''] env0 (armed LevelInfo Ldate) =
     Some (Inr ((armed LevelInfo Ldate)\<lparr>stdout :=
       [''svc 2009/01/23 INF[req-42]<started job1>'' @ [newline]]\<rparr>)) \<and>
   spec_line env0 ''svc'' Ldate InfoStr [''req-42''] ''started job1'' =
     ''2009/01/23 svc INF[req-42]<started job1>'' \<and>
   ''svc 2009/01/23 INF[req-42]<started job1>'' \<noteq>
     spec_line env0 ''svc'' Ldate InfoStr [''req-42''] ''started job1''"
proof -
  have d: "deref (armed LevelInfo Ldate) 0 = Some (heap (armed LevelInfo Ldate) ! 0)"
    by (simp add: deref_def armed_Info)
  have w: "log (heap (armed LevelInfo Ldate) ! 0) = stdlog_New Stdout (''svc'' @ '' '') Ldate"
    by (simp add: armed_Info)
  have t: "CHR ''%'' \<notin> set InfoStr" by (simp add: InfoStr_def)
  have c: "\<forall>c \<in> set [''req-42'']. CHR ''%'' \<notin> set c" by simp
  have slot: "infoFn (heap (armed LevelInfo Ldate) ! 0) = LogWrite 0"
    by (simp add: armed_Info)
  have out: "stdout (armed LevelInfo Ldate) = []"
    by (simp add: armed_Info initial_def)
  have line: "emitted_line env0 ''svc'' Ldate InfoStr [''req-42''] ''started job1'' =
      ''svc 2009/01/23 INF[req-42]<started job1>''"
    by (simp add: emitted_line_def date_decoration InfoStr_def) (simp add: Ldate_def Lmsgprefix_def)
  have spec: "spec_line env0 ''svc'' Ldate InfoStr [''req-42''] ''started job1'' =
      ''2009/01/23 svc INF[req-42]<started job1>''"
    by (simp add: spec_line_def date_decoration InfoStr_def)
  have "log_call fmt_plain Logger_Info 0 [''req-42''] ''started %s'' [StringV ''job1''] env0 (armed LevelInfo Ldate) =
      call_PrintFunc fmt_plain (Logger_logWrite 0 InfoStr [''req-42'']) ''started %s''
        [StringV ''job1''] env0
        (armed LevelInfo Ldate)"
    by (simp add: log_call_def Logger_Info_def d slot)
  also have "\<dots> = Some (Inr ((armed LevelInfo Ldate)\<lparr>stdout := stdout (armed LevelInfo Ldate) @
        [emitted_line env0 ''svc'' Ldate InfoStr [''req-42''] ''started job1'' @ [newline]]\<rparr>))"
    by (rule Printer_line [OF d w t c started_job1])
  finally show ?thesis
    by (simp only: out line spec append_Nil simp_thms) simp
qed

text \<open>
  The prefix built from the tag and the contexts is part of the format handed to
  \<open>Printf\<close>: a \<open>%\<close> inside a context is read as a directive. Here the context
  \<open>100%%\<close> comes out as \<open>100%\<close>.
\<close>

lemma Sprintf_percent_context:
  "Sprintf fmt_plain ''INF[100%%]<done>'' [] = Some ''INF[100%]<done>''"
  by (simp add: Sprintf_def scan_defs)

lemma percent_in_context_is_a_directive:
  "log_call fmt_plain Logger_Info 0 [''100%%''] ''done'' [] env0 (armed LevelInfo 0) =
     Some (Inr ((armed LevelInfo 0)\<lparr>stdout := [''svc INF[100%]<done>'' @ [newline]]\<rparr>))"
  by (simp add: log_call_def Logger_Info_def deref_def armed_Info initial_def InfoStr_def
      Logger_logWrite_def stdlog_Printf_def Sprintf_percent_context stdlog_Output_def
      stdlog_New_def formatHeader_def no_decorations Lmsgprefix_def stream_Write_def newline_def)

text \<open>
  An operand that the format does not use is reported by \<open>Sprintf\<close> at the end of the
  whole text, after the closing angle bracket.
\<close>

lemma Sprintf_surplus:
  "Sprintf fmt_plain ''INF[req-42]<done>'' [StringV ''job1''] =
     Some ''INF[req-42]<done>%!(EXTRA string=job1)''"
  by (simp add: Sprintf_def scan_defs extra_def typeName_def fmt_v_def)

lemma surplus_operand_follows_the_bracket:
  "log_call fmt_plain Logger_Info 0 [''req-42''] ''done'' [StringV ''job1''] env0 (armed LevelInfo 0) =
     Some (Inr ((armed LevelInfo 0)\<lparr>stdout :=
       [''svc INF[req-42]<done>%!(EXTRA string=job1)'' @ [newline]]\<rparr>))"
  by (simp add: log_call_def Logger_Info_def deref_def armed_Info initial_def InfoStr_def
      Logger_logWrite_def stdlog_Printf_def Sprintf_surplus stdlog_Output_def stdlog_New_def
      formatHeader_def no_decorations Lmsgprefix_def stream_Write_def newline_def)

end
